theory Spec2Isabelle
  imports Complex_Main
begin

section \<open>Robot trajectory-tracking simulation: the per-frame physics update\<close>

text \<open>
  A shallow embedding of \<^verbatim>\<open>src/components/RobotSimulation.tsx\<close> (the reset effect,
  \<^verbatim>\<open>getReferencePoint\<close> and \<^verbatim>\<open>updatePhysics\<close>) together with the constants of
  \<^verbatim>\<open>src/constants.ts\<close> and the configuration type of \<^verbatim>\<open>src/types.ts\<close>.

  TypeScript's \<^verbatim>\<open>number\<close> is modelled as \<^typ>\<open>real\<close>: every arithmetic operation is the
  exact one, and \<^verbatim>\<open>Math.cos\<close>, \<^verbatim>\<open>Math.sin\<close>, \<^verbatim>\<open>Math.sqrt\<close>, \<^verbatim>\<open>Math.PI\<close> are
  \<^term>\<open>cos\<close>, \<^term>\<open>sin\<close>, \<^term>\<open>sqrt\<close>, \<^term>\<open>pi\<close>. Rounding of IEEE doubles, signed
  zeros, infinities and NaN are outside the model.

  The mutable \<^verbatim>\<open>useRef\<close> cells become the fields of one state record, which
  \<^verbatim>\<open>updatePhysics\<close> takes and returns; the \<^verbatim>\<open>onUpdate\<close> callback becomes an optional
  output sample.
\<close>

subsection \<open>Constants and types\<close>

text \<open>\<^verbatim>\<open>SIM_CONSTANTS.FPS\<close> and \<^verbatim>\<open>SIM_CONSTANTS.TRAIL_LENGTH\<close> (src/constants.ts, lines 1-10).\<close>

definition FPS :: real where
  "FPS = 60"

definition TRAIL_LENGTH :: nat where
  "TRAIL_LENGTH = 200"

text \<open>\<^verbatim>\<open>enum TrajectoryType\<close> (src/constants.ts, lines 12-15).\<close>

datatype TrajectoryType = CIRCLE | FIGURE_EIGHT

text \<open>\<^verbatim>\<open>interface ControlConfig\<close> (src/types.ts, lines 27-32).\<close>

record ControlConfig =
  isAdaptive :: bool
  hasLoad :: bool
  trajectory :: TrajectoryType
  isPlaying :: bool

text \<open>
  A trail entry \<^verbatim>\<open>{x, y}\<close>, the value \<^verbatim>\<open>{x, y, dx, dy}\<close> returned by
  \<^verbatim>\<open>getReferencePoint\<close>, the robot cell \<^verbatim>\<open>{x, y, theta, v, w}\<close> and the parameter cell
  \<^verbatim>\<open>{thetaM, thetaI}\<close>. The coordinate fields carry a prefix, since a record field is a
  global constant.
\<close>

record Point =
  pt_x :: real
  pt_y :: real

record RefPoint =
  ref_x :: real
  ref_y :: real
  ref_dx :: real
  ref_dy :: real

record Robot =
  robot_x :: real
  robot_y :: real
  robot_theta :: real
  robot_v :: real
  robot_w :: real

record AdaptiveParams =
  thetaM :: real
  thetaI :: real

text \<open>One element of \<^verbatim>\<open>SimulationState['history']\<close> (src/types.ts, lines 19-24).\<close>

record HistorySample =
  sample_time :: real
  sample_error :: real
  theta1 :: real
  theta2 :: real

text \<open>The five simulation cells (RobotSimulation.tsx, lines 15-19).\<close>

record SimState =
  timeRef :: real
  robotRef :: Robot
  adaptiveParamsRef :: AdaptiveParams
  trailRef :: "Point list"
  refTrailRef :: "Point list"

text \<open>The initial values of the cells (lines 15-19).\<close>

definition initialRefs :: SimState where
  "initialRefs =
     \<lparr>timeRef = 0,
      robotRef = \<lparr>robot_x = 0, robot_y = 0, robot_theta = 0, robot_v = 0, robot_w = 0\<rparr>,
      adaptiveParamsRef = \<lparr>thetaM = 1.0, thetaI = 1.0\<rparr>,
      trailRef = [],
      refTrailRef = []\<rparr>"

text \<open>
  The effect that runs on mount and whenever \<^verbatim>\<open>config.trajectory\<close> changes
  (lines 22-28): every cell is overwritten.
\<close>

definition resetSimulation :: "SimState \<Rightarrow> SimState" where
  "resetSimulation s =
     \<lparr>timeRef = 0,
      robotRef = \<lparr>robot_x = 0.2, robot_y = 0, robot_theta = 0, robot_v = 0, robot_w = 0\<rparr>,
      adaptiveParamsRef = \<lparr>thetaM = 1.0, thetaI = 1.0\<rparr>,
      trailRef = [],
      refTrailRef = []\<rparr>"

subsection \<open>Library functions of the host language\<close>

text \<open>
  \<^verbatim>\<open>Math.atan2(y, x)\<close> on real arguments: the angle of the point \<open>(x, y)\<close>, with
  \<^verbatim>\<open>Math.atan2(0, 0) = 0\<close>.
\<close>

definition atan2 :: "real \<Rightarrow> real \<Rightarrow> real" where
  "atan2 b a =
     (if a > 0 then arctan (b / a)
      else if a < 0 \<and> b \<ge> 0 then arctan (b / a) + pi
      else if a < 0 \<and> b < 0 then arctan (b / a) - pi
      else if b > 0 then pi / 2
      else if b < 0 then - (pi / 2)
      else 0)"

text \<open>
  The remainder operator \<^verbatim>\<open>a % b\<close> on numbers: the quotient is truncated towards zero,
  so the result has the sign of the dividend.
\<close>

definition jsRem :: "real \<Rightarrow> real \<Rightarrow> real" where
  "jsRem a b =
     a - b * of_int (if a / b \<ge> 0 then \<lfloor>a / b\<rfloor> else \<lceil>a / b\<rceil>)"

text \<open>
  \<^verbatim>\<open>Number(t.toFixed(1))\<close>: the nearest multiple of one tenth, a tie going to the larger
  magnitude.
\<close>

definition toFixed1 :: "real \<Rightarrow> real" where
  "toFixed1 a =
     (if a < 0 then - (of_int \<lfloor>- a * 10 + 1 / 2\<rfloor> / 10)
      else of_int \<lfloor>a * 10 + 1 / 2\<rfloor> / 10)"

subsection \<open>Reference trajectory\<close>

text \<open>\<^verbatim>\<open>getReferencePoint\<close> (lines 30-54).\<close>

definition getReferencePoint :: "ControlConfig \<Rightarrow> real \<Rightarrow> RefPoint" where
  "getReferencePoint config t =
     (let speed = 0.5 in
      if trajectory config = CIRCLE then
        (let R = 0.8 in
         \<lparr>ref_x = R * cos (t * speed),
          ref_y = R * sin (t * speed),
          ref_dx = - R * speed * sin (t * speed),
          ref_dy = R * speed * cos (t * speed)\<rparr>)
      else
        (let a = 1.0;
             sint = sin (t * speed);
             cost = cos (t * speed);
             den = 1 + sint * sint in
         \<lparr>ref_x = (a * cost) / den,
          ref_y = (a * cost * sint) / den,
          ref_dx = (- a * sint * (3 + sint * sint)) / (den * den) * speed,
          ref_dy = (a * (1 - 3 * sint * sint)) / (den * den) * speed\<rparr>))"

subsection \<open>The pieces of \<^verbatim>\<open>updatePhysics\<close>\<close>

text \<open>The fixed step \<^verbatim>\<open>dt = 1 / SIM_CONSTANTS.FPS\<close> (line 59).\<close>

definition dt :: real where
  "dt = 1 / FPS"

text \<open>
  \<^verbatim>\<open>distError\<close> (lines 72-76): the distance from the robot to the reference point.
\<close>

definition distError :: "RefPoint \<Rightarrow> Robot \<Rightarrow> real" where
  "distError ref robot =
     (let dx_global = ref_x ref - robot_x robot;
          dy_global = ref_y ref - robot_y robot in
      sqrt (dx_global * dx_global + dy_global * dy_global))"

text \<open>
  The two normalisation loops (lines 86 and 87). Each is a recursive function on the
  loop variable; the measure counts the corrections still to make.
\<close>

definition downSteps :: "real \<Rightarrow> nat" where
  "downSteps a = nat \<lceil>(a - pi) / (2 * pi)\<rceil>"

definition upSteps :: "real \<Rightarrow> nat" where
  "upSteps a = nat \<lceil>(- a - pi) / (2 * pi)\<rceil>"

function normalizeDown :: "real \<Rightarrow> real" where
  "normalizeDown angleDiff =
     (if angleDiff > pi then normalizeDown (angleDiff - 2 * pi) else angleDiff)"
  by pat_completeness auto

termination normalizeDown
proof (relation "measure downSteps")
  show "wf (measure downSteps)" by simp
next
  fix angleDiff :: real
  assume h: "pi < angleDiff"
  have e: "(angleDiff - 2 * pi - pi) / (2 * pi) = (angleDiff - pi) / (2 * pi) - 1"
    by (simp add: field_simps)
  have "0 < (angleDiff - pi) / (2 * pi)" using h by simp
  then have "0 < \<lceil>(angleDiff - pi) / (2 * pi)\<rceil>" by simp
  then have "downSteps (angleDiff - 2 * pi) < downSteps angleDiff"
    unfolding downSteps_def e by simp
  then show "(angleDiff - 2 * pi, angleDiff) \<in> measure downSteps" by simp
qed

function normalizeUp :: "real \<Rightarrow> real" where
  "normalizeUp angleDiff =
     (if angleDiff < - pi then normalizeUp (angleDiff + 2 * pi) else angleDiff)"
  by pat_completeness auto

termination normalizeUp
proof (relation "measure upSteps")
  show "wf (measure upSteps)" by simp
next
  fix angleDiff :: real
  assume h: "angleDiff < - pi"
  have e: "(- (angleDiff + 2 * pi) - pi) / (2 * pi) = (- angleDiff - pi) / (2 * pi) - 1"
    by (simp add: field_simps)
  have "0 < (- angleDiff - pi) / (2 * pi)" using h by simp
  then have "0 < \<lceil>(- angleDiff - pi) / (2 * pi)\<rceil>" by simp
  then have "upSteps (angleDiff + 2 * pi) < upSteps angleDiff"
    unfolding upSteps_def e by simp
  then show "(angleDiff + 2 * pi, angleDiff) \<in> measure upSteps" by simp
qed

text \<open>
  The simplification rules of the two loops unfold for ever; they are used by name,
  one iteration at a time.
\<close>

declare normalizeDown.simps [simp del]
declare normalizeUp.simps [simp del]

text \<open>Lines 83-87: the first loop runs to its exit, then the second.\<close>

definition normalizeAngle :: "real \<Rightarrow> real" where
  "normalizeAngle angleDiff = normalizeUp (normalizeDown angleDiff)"

text \<open>
  The kinematic controller (lines 80-93): the commanded linear velocity, saturated at
  1.0, and the commanded angular velocity, which has no saturation.
\<close>

definition cmdV :: "RefPoint \<Rightarrow> Robot \<Rightarrow> real" where
  "cmdV ref robot =
     (let kv = 2.0;
          v = kv * distError ref robot in
      if v > 1.0 then 1.0 else v)"

definition cmdW :: "RefPoint \<Rightarrow> Robot \<Rightarrow> real" where
  "cmdW ref robot =
     (let kw = 4.0;
          dx_global = ref_x ref - robot_x robot;
          dy_global = ref_y ref - robot_y robot;
          targetTheta = atan2 dy_global dx_global;
          angleDiff = normalizeAngle (targetTheta - robot_theta robot) in
      kw * angleDiff)"

text \<open>The true mass of the plant (lines 99-101).\<close>

definition realMass :: "ControlConfig \<Rightarrow> real" where
  "realMass config =
     (let baseMass = 1.0;
          loadMass = (if hasLoad config then 2.5 else 0.0) in
      baseMass + loadMass)"

text \<open>
  The adaptation law (lines 104-123): from the configuration, the distance error of the
  tick and the current estimate to the estimate stored at the end of the tick.
\<close>

definition adaptationLaw :: "ControlConfig \<Rightarrow> real \<Rightarrow> real \<Rightarrow> real" where
  "adaptationLaw config err est =
     (if isAdaptive config then
        (let gamma = 0.5;
             sigma = 0.01;
             adaptationError = (if err > 0.05 then realMass config - est else 0) in
         est + dt * (gamma * adaptationError - sigma * est))
      else 1.0)"

text \<open>
  The plant model (lines 132-138): the velocities the robot achieves, as the pair
  \<^verbatim>\<open>(actualV, actualW)\<close>, from the commanded ones, the stored estimate and the true mass.
\<close>

definition applyDynamics :: "real \<Rightarrow> real \<Rightarrow> real \<Rightarrow> real \<Rightarrow> real \<times> real" where
  "applyDynamics v w est mass =
     (let dynamicsFactor = est / mass;
          skidFactor = 1.0;
          actualV = v * dynamicsFactor * skidFactor;
          actualW = w * dynamicsFactor * skidFactor in
      (actualV, actualW))"

text \<open>
  One trail update (lines 147-151): \<^verbatim>\<open>push\<close> appends at the end, and a single
  \<^verbatim>\<open>shift\<close> removes the first entry when the length is above the capacity.
\<close>

definition pushTrail :: "Point list \<Rightarrow> Point \<Rightarrow> Point list" where
  "pushTrail tr p =
     (let pushed = tr @ [p] in
      if length pushed > TRAIL_LENGTH then tl pushed else pushed)"

text \<open>The downsampling test of line 146, on the advanced clock.\<close>

definition trailDue :: "real \<Rightarrow> bool" where
  "trailDue t = (jsRem t 0.1 < dt)"

subsection \<open>\<^verbatim>\<open>updatePhysics\<close>\<close>

text \<open>
  \<^verbatim>\<open>updatePhysics\<close> (lines 56-160). The result is the new state and the sample passed to
  \<^verbatim>\<open>onUpdate\<close>, if any. With \<^verbatim>\<open>isPlaying\<close> false the function returns at line 57.
\<close>

definition updatePhysics :: "ControlConfig \<Rightarrow> SimState \<Rightarrow> SimState \<times> HistorySample option" where
  "updatePhysics config s =
     (if \<not> isPlaying config then (s, None)
      else
        (let t = timeRef s + dt;
             ref = getReferencePoint config t;
             refX = ref_x ref;
             refY = ref_y ref;
             robot = robotRef s;
             err = distError ref robot;
             params = (adaptiveParamsRef s)
                        \<lparr>thetaM := adaptationLaw config err (thetaM (adaptiveParamsRef s))\<rparr>;
             (actualV, actualW) =
                applyDynamics (cmdV ref robot) (cmdW ref robot) (thetaM params) (realMass config);
             robot' = robot
                        \<lparr>robot_x := robot_x robot + actualV * cos (robot_theta robot) * dt,
                         robot_y := robot_y robot + actualV * sin (robot_theta robot) * dt,
                         robot_theta := robot_theta robot + actualW * dt\<rparr>;
             moved = s\<lparr>timeRef := t, robotRef := robot', adaptiveParamsRef := params\<rparr> in
         if trailDue t then
           (moved
              \<lparr>trailRef := pushTrail (trailRef s) \<lparr>pt_x = robot_x robot', pt_y = robot_y robot'\<rparr>,
               refTrailRef := pushTrail (refTrailRef s) \<lparr>pt_x = refX, pt_y = refY\<rparr>\<rparr>,
            Some \<lparr>sample_time = toFixed1 t,
                  sample_error = err,
                  theta1 = thetaM params,
                  theta2 = thetaI params\<rparr>)
         else (moved, None)))"

subsection \<open>Runs\<close>

text \<open>
  What happens to the cells between two renders: an animation frame calls
  \<^verbatim>\<open>updatePhysics\<close> with the configuration of the moment (lines 246-251), or a change of
  \<^verbatim>\<open>config.trajectory\<close> runs the reset effect.
\<close>

datatype event = Frame ControlConfig | TrajectoryChanged

fun step :: "event \<Rightarrow> SimState \<Rightarrow> SimState \<times> HistorySample option" where
  "step (Frame config) s = updatePhysics config s"
| "step TrajectoryChanged s = (resetSimulation s, None)"

text \<open>A run: the final state and the samples emitted, oldest first.\<close>

fun run :: "event list \<Rightarrow> SimState \<Rightarrow> SimState \<times> HistorySample list" where
  "run [] s = (s, [])"
| "run (e # es) s =
     (case step e s of
        (s', out) \<Rightarrow>
          (case run es s' of
             (s'', outs) \<Rightarrow> (s'', (case out of None \<Rightarrow> [] | Some d \<Rightarrow> [d]) @ outs)))"

subsection \<open>Example inputs\<close>

text \<open>
  A state at clock 0 in which the robot stands exactly on the point the circle's
  reference reaches at the next tick (clock \<open>1/60\<close>, angle \<open>1/120\<close>), with a chosen
  estimate: the distance error computed by that tick is 0.
\<close>

definition onReference :: "real \<Rightarrow> SimState" where
  "onReference est =
     \<lparr>timeRef = 0,
      robotRef = \<lparr>robot_x = 0.8 * cos (1 / 120), robot_y = 0.8 * sin (1 / 120),
                  robot_theta = 0, robot_v = 0, robot_w = 0\<rparr>,
      adaptiveParamsRef = \<lparr>thetaM = est, thetaI = 1.0\<rparr>,
      trailRef = [],
      refTrailRef = []\<rparr>"

section \<open>Properties\<close>

subsection \<open>What one call of \<^verbatim>\<open>updatePhysics\<close> stores\<close>

lemma updatePhysics_paused:
  "\<not> isPlaying config \<Longrightarrow> updatePhysics config s = (s, None)"
  by (simp add: updatePhysics_def)

lemma thetaM_updatePhysics:
  "isPlaying config \<Longrightarrow>
   thetaM (adaptiveParamsRef (fst (updatePhysics config s))) =
   adaptationLaw config (distError (getReferencePoint config (timeRef s + dt)) (robotRef s))
     (thetaM (adaptiveParamsRef s))"
  by (simp add: updatePhysics_def Let_def split: prod.splits)

lemma pose_updatePhysics:
  "isPlaying config \<Longrightarrow>
   robotRef (fst (updatePhysics config s)) =
     (let ref = getReferencePoint config (timeRef s + dt);
          robot = robotRef s;
          eff = thetaM (adaptiveParamsRef (fst (updatePhysics config s))) / realMass config
      in robot
          \<lparr>robot_x := robot_x robot + cmdV ref robot * eff * cos (robot_theta robot) * dt,
           robot_y := robot_y robot + cmdV ref robot * eff * sin (robot_theta robot) * dt,
           robot_theta := robot_theta robot + cmdW ref robot * eff * dt\<rparr>)"
  by (simp add: updatePhysics_def applyDynamics_def Let_def split: prod.splits)

lemma trails_updatePhysics:
  "(trailRef (fst (updatePhysics config s)) = trailRef s \<and>
    refTrailRef (fst (updatePhysics config s)) = refTrailRef s) \<or>
   (\<exists>p q. trailRef (fst (updatePhysics config s)) = pushTrail (trailRef s) p \<and>
          refTrailRef (fst (updatePhysics config s)) = pushTrail (refTrailRef s) q)"
  by (auto simp add: updatePhysics_def Let_def split: prod.splits)

lemma length_pushTrail:
  "length (pushTrail tr p) = (if length tr < TRAIL_LENGTH then length tr + 1 else length tr)"
  by (simp add: pushTrail_def Let_def)

lemma realMass_cases: "realMass config = (if hasLoad config then 3.5 else 1)"
  by (simp add: realMass_def)

lemma fst_run_Cons: "fst (run (e # es) s) = fst (run es (fst (step e s)))"
  by (simp split: prod.splits)

subsection \<open>Distance errors of the example inputs\<close>

lemma onReference_distError:
  "trajectory config = CIRCLE \<Longrightarrow>
   distError (getReferencePoint config (timeRef (onReference est) + dt))
     (robotRef (onReference est)) = 0"
  by (simp add: distError_def getReferencePoint_def onReference_def dt_def FPS_def Let_def)

lemma cos_small: "1 / 2 < cos (1 / 120 :: real)"
proof -
  have "(1 / 120 :: real) < pi / 3" using pi_ge_two by simp
  then have "cos (pi / 3) < cos (1 / 120 :: real)"
    by (intro cos_monotone_0_pi) simp_all
  then show ?thesis by (simp add: cos_60)
qed

text \<open>
  After a reset the robot is at \<open>(0.2, 0)\<close> and the circle's reference of the first tick
  near \<open>(0.8, 0)\<close>: the first tick is outside the dead-zone.
\<close>

lemma reset_distError:
  "trajectory config = CIRCLE \<Longrightarrow>
   0.05 < distError (getReferencePoint config (timeRef (resetSimulation s) + dt))
            (robotRef (resetSimulation s))"
proof -
  assume c: "trajectory config = CIRCLE"
  define dx :: real where "dx = 0.8 * cos (1 / 120) - 0.2"
  define dy :: real where "dy = 0.8 * sin (1 / 120)"
  have e: "distError (getReferencePoint config (timeRef (resetSimulation s) + dt))
             (robotRef (resetSimulation s)) = sqrt (dx * dx + dy * dy)"
    using c
    by (simp add: distError_def getReferencePoint_def resetSimulation_def dt_def FPS_def
        Let_def dx_def dy_def)
  have "0.05 < dx" unfolding dx_def using cos_small by simp
  also have "dx \<le> sqrt (dx * dx + dy * dy)"
    using real_sqrt_sum_squares_ge1 [of dx dy] by (simp add: power2_eq_square)
  finally show ?thesis unfolding e .
qed

subsection \<open>The adaptation law within one tick\<close>

text \<open>
  In the theorems of this subsection a tick is a call of \<^verbatim>\<open>updatePhysics\<close> whose body
  runs (\<^verbatim>\<open>isPlaying\<close> is true): the distance error they speak of is computed only
  then. The call with \<^verbatim>\<open>isPlaying\<close> false is the subject of claim C9.
\<close>

text \<open>
  Claim C1, as stated: in a tick with adaptation enabled and a distance error of at most
  0.05, the estimate \<^verbatim>\<open>thetaM\<close> at the end of the tick equals its value at the start.
  This fails: with the robot on the reference point (distance error 0) and the estimate
  1, the tick stores \<open>5999/6000\<close>.
\<close>

theorem deadZone_unchanged_counterexample:
  "isPlaying \<lparr>isAdaptive = True, hasLoad = False, trajectory = CIRCLE, isPlaying = True\<rparr> \<and>
   isAdaptive \<lparr>isAdaptive = True, hasLoad = False, trajectory = CIRCLE, isPlaying = True\<rparr> \<and>
   distError
     (getReferencePoint
        \<lparr>isAdaptive = True, hasLoad = False, trajectory = CIRCLE, isPlaying = True\<rparr>
        (timeRef (onReference 1) + dt))
     (robotRef (onReference 1)) \<le> 0.05 \<and>
   thetaM (adaptiveParamsRef (onReference 1)) = 1 \<and>
   thetaM (adaptiveParamsRef (fst (updatePhysics
     \<lparr>isAdaptive = True, hasLoad = False, trajectory = CIRCLE, isPlaying = True\<rparr>
     (onReference 1)))) = 5999 / 6000 \<and>
   thetaM (adaptiveParamsRef (fst (updatePhysics
     \<lparr>isAdaptive = True, hasLoad = False, trajectory = CIRCLE, isPlaying = True\<rparr>
     (onReference 1)))) \<noteq> thetaM (adaptiveParamsRef (onReference 1))"
proof -
  let ?c = "\<lparr>isAdaptive = True, hasLoad = False, trajectory = CIRCLE, isPlaying = True\<rparr>"
  have d: "distError (getReferencePoint ?c (timeRef (onReference 1) + dt))
             (robotRef (onReference 1)) = 0"
    by (rule onReference_distError) simp
  have t: "thetaM (adaptiveParamsRef (onReference 1)) = 1"
    by (simp add: onReference_def)
  have "thetaM (adaptiveParamsRef (fst (updatePhysics ?c (onReference 1)))) =
          adaptationLaw ?c 0 1"
    using thetaM_updatePhysics [of ?c "onReference 1"] unfolding d t by simp
  also have "\<dots> = 5999 / 6000"
    by (simp add: adaptationLaw_def dt_def FPS_def)
  finally have n: "thetaM (adaptiveParamsRef (fst (updatePhysics ?c (onReference 1)))) = 5999 / 6000" .
  show ?thesis unfolding n d t by simp
qed

text \<open>
  Claim C1, amended: in a tick with adaptation enabled and a distance error of at most
  0.05, only the error term of the law is suppressed. The leakage term still acts: the
  estimate at the end of the tick is \<open>thetaM - dt * (0.01 * thetaM)\<close>, and it equals the
  value at the start only when that value is 0.
\<close>

theorem deadZone_leakage_only:
  assumes "isPlaying config" and "isAdaptive config"
    and "distError (getReferencePoint config (timeRef s + dt)) (robotRef s) \<le> 0.05"
  shows "thetaM (adaptiveParamsRef (fst (updatePhysics config s))) =
           thetaM (adaptiveParamsRef s) - dt * (0.01 * thetaM (adaptiveParamsRef s)) \<and>
         (thetaM (adaptiveParamsRef (fst (updatePhysics config s))) = thetaM (adaptiveParamsRef s)
            \<longleftrightarrow> thetaM (adaptiveParamsRef s) = 0)"
  using assms by (simp add: thetaM_updatePhysics adaptationLaw_def dt_def FPS_def)

theorem deadZone_leakage_only_witness:
  "distError
     (getReferencePoint
        \<lparr>isAdaptive = True, hasLoad = True, trajectory = CIRCLE, isPlaying = True\<rparr>
        (timeRef (onReference 3) + dt))
     (robotRef (onReference 3)) \<le> 0.05 \<and>
   thetaM (adaptiveParamsRef (fst (updatePhysics
     \<lparr>isAdaptive = True, hasLoad = True, trajectory = CIRCLE, isPlaying = True\<rparr>
     (onReference 3)))) = 3 - dt * (0.01 * 3)"
proof -
  let ?c = "\<lparr>isAdaptive = True, hasLoad = True, trajectory = CIRCLE, isPlaying = True\<rparr>"
  have "distError (getReferencePoint ?c (timeRef (onReference 3) + dt))
          (robotRef (onReference 3)) = 0"
    by (rule onReference_distError) simp
  then have d: "distError (getReferencePoint ?c (timeRef (onReference 3) + dt))
                  (robotRef (onReference 3)) \<le> 0.05"
    by simp
  have t: "thetaM (adaptiveParamsRef (onReference 3)) = 3"
    by (simp add: onReference_def)
  from deadZone_leakage_only [of ?c "onReference 3", OF _ _ d] d show ?thesis
    unfolding t by simp
qed

text \<open>
  Claim C2: in a tick with adaptation enabled and a distance error above 0.05, the new
  estimate is \<open>thetaM + dt * (0.5 * (trueMass - thetaM) - 0.01 * thetaM)\<close>, where the true
  mass is 1.0, plus 2.5 when the load is present, and \<open>dt\<close> is \<open>1/60\<close>.
\<close>

theorem adaptation_update_formula:
  assumes "isPlaying config" and "isAdaptive config"
    and "distError (getReferencePoint config (timeRef s + dt)) (robotRef s) > 0.05"
  shows "thetaM (adaptiveParamsRef (fst (updatePhysics config s))) =
           thetaM (adaptiveParamsRef s) +
           dt * (0.5 * (realMass config - thetaM (adaptiveParamsRef s))
                 - 0.01 * thetaM (adaptiveParamsRef s)) \<and>
         realMass config = 1.0 + (if hasLoad config then 2.5 else 0) \<and>
         dt = 1 / 60"
  using assms
  by (simp add: thetaM_updatePhysics adaptationLaw_def dt_def FPS_def realMass_def)

text \<open>The first tick after a reset, with the load and adaptation on: 1 becomes \<open>1531/1500\<close>.\<close>

theorem adaptation_update_formula_witness:
  "0.05 < distError
     (getReferencePoint
        \<lparr>isAdaptive = True, hasLoad = True, trajectory = CIRCLE, isPlaying = True\<rparr>
        (timeRef (resetSimulation initialRefs) + dt))
     (robotRef (resetSimulation initialRefs)) \<and>
   thetaM (adaptiveParamsRef (fst (updatePhysics
     \<lparr>isAdaptive = True, hasLoad = True, trajectory = CIRCLE, isPlaying = True\<rparr>
     (resetSimulation initialRefs)))) = 1531 / 1500"
proof -
  let ?c = "\<lparr>isAdaptive = True, hasLoad = True, trajectory = CIRCLE, isPlaying = True\<rparr>"
  have d: "0.05 < distError (getReferencePoint ?c (timeRef (resetSimulation initialRefs) + dt))
              (robotRef (resetSimulation initialRefs))"
    by (rule reset_distError) simp
  have t: "thetaM (adaptiveParamsRef (resetSimulation initialRefs)) = 1"
    by (simp add: resetSimulation_def)
  have "thetaM (adaptiveParamsRef (fst (updatePhysics ?c (resetSimulation initialRefs)))) =
          1 + dt * (0.5 * (realMass ?c - 1) - 0.01 * 1)"
    using adaptation_update_formula [of ?c "resetSimulation initialRefs", OF _ _ d]
    unfolding t by simp
  also have "\<dots> = 1531 / 1500"
    by (simp add: realMass_def dt_def FPS_def)
  finally show ?thesis using d by simp
qed

text \<open>
  Claim C4: in every tick with adaptation disabled, \<^verbatim>\<open>thetaM\<close> is exactly 1.0 at the end
  of the tick, for any prior estimate, any distance error and either load setting. The
  law itself returns 1 whatever it is given, and the tick stores that value.
\<close>

theorem nonadaptive_estimate_one:
  "\<not> isAdaptive config \<Longrightarrow>
     adaptationLaw config err est = 1 \<and>
     (isPlaying config \<longrightarrow> thetaM (adaptiveParamsRef (fst (updatePhysics config s))) = 1)"
  by (simp add: thetaM_updatePhysics adaptationLaw_def)

theorem nonadaptive_estimate_one_witness:
  "\<not> isAdaptive \<lparr>isAdaptive = False, hasLoad = True, trajectory = CIRCLE, isPlaying = True\<rparr> \<and>
   isPlaying \<lparr>isAdaptive = False, hasLoad = True, trajectory = CIRCLE, isPlaying = True\<rparr> \<and>
   thetaM (adaptiveParamsRef (onReference 3)) = 3 \<and>
   thetaM (adaptiveParamsRef (fst (updatePhysics
     \<lparr>isAdaptive = False, hasLoad = True, trajectory = CIRCLE, isPlaying = True\<rparr>
     (onReference 3)))) = 1"
  using nonadaptive_estimate_one
    [of "\<lparr>isAdaptive = False, hasLoad = True, trajectory = CIRCLE, isPlaying = True\<rparr>"
        0 3 "onReference 3"]
  by (simp add: onReference_def)

subsection \<open>The plant within one tick\<close>

text \<open>
  After a reset the first tick on the circle sees a distance error above 0.5, so the
  commanded linear velocity is saturated at 1.
\<close>

lemma cos_near_one: "7 / 8 < cos (1 / 120 :: real)"
proof -
  define c :: real where "c = cos (1 / 120)"
  define z :: real where "z = sin (1 / 120)"
  have "\<bar>z\<bar> \<le> 1 / 120" unfolding z_def using abs_sin_x_le_abs_x [of "1 / 120"] by simp
  then have "z\<^sup>2 \<le> (1 / 120)\<^sup>2"
    using abs_le_square_iff [of z "1 / 120"] by simp
  moreover have "c\<^sup>2 = 1 - z\<^sup>2"
    unfolding c_def z_def by (rule cos_squared_eq)
  ultimately have sq: "7 / 8 < c\<^sup>2" by (simp add: power2_eq_square)
  have "c \<le> 1" unfolding c_def by simp
  moreover have "0 < c" unfolding c_def using cos_small by simp
  ultimately have "c\<^sup>2 \<le> c" by (simp add: power2_eq_square mult_left_le)
  with sq show ?thesis unfolding c_def by simp
qed

lemma reset_cmdV:
  "trajectory config = CIRCLE \<Longrightarrow>
   cmdV (getReferencePoint config (timeRef (resetSimulation s) + dt)) (robotRef (resetSimulation s)) = 1"
proof -
  assume c: "trajectory config = CIRCLE"
  define dx :: real where "dx = 0.8 * cos (1 / 120) - 0.2"
  define dy :: real where "dy = 0.8 * sin (1 / 120)"
  have e: "distError (getReferencePoint config (timeRef (resetSimulation s) + dt))
             (robotRef (resetSimulation s)) = sqrt (dx * dx + dy * dy)"
    using c
    by (simp add: distError_def getReferencePoint_def resetSimulation_def dt_def FPS_def
        Let_def dx_def dy_def)
  have "1 / 2 < dx" unfolding dx_def using cos_near_one by simp
  also have "dx \<le> sqrt (dx * dx + dy * dy)"
    using real_sqrt_sum_squares_ge1 [of dx dy] by (simp add: power2_eq_square)
  finally have "1 / 2 < sqrt (dx * dx + dy * dy)" .
  then show ?thesis unfolding cmdV_def e by (simp add: Let_def)
qed

text \<open>
  Claim C7: the velocities a tick achieves are the commanded ones times
  \<open>thetaM / trueMass\<close>, with no further clamp on either. The true mass of a tick is
  always above 0, the estimate is the one the adaptation law has just stored in this
  tick, and the pose the tick stores is the old pose advanced by exactly
  \<open>cmdV * (thetaM / trueMass)\<close> along the old heading and turned by exactly
  \<open>cmdW * (thetaM / trueMass)\<close>, each over the step \<open>dt\<close>; the fields \<^verbatim>\<open>v\<close> and
  \<^verbatim>\<open>w\<close> of the robot cell are not written.
\<close>

theorem achieved_velocities:
  assumes "isPlaying config"
  shows "0 < realMass config \<and>
         thetaM (adaptiveParamsRef (fst (updatePhysics config s))) =
           adaptationLaw config
             (distError (getReferencePoint config (timeRef s + dt)) (robotRef s))
             (thetaM (adaptiveParamsRef s)) \<and>
         robotRef (fst (updatePhysics config s)) =
           (robotRef s)
             \<lparr>robot_x := robot_x (robotRef s) +
                  cmdV (getReferencePoint config (timeRef s + dt)) (robotRef s) *
                    (thetaM (adaptiveParamsRef (fst (updatePhysics config s))) / realMass config) *
                  cos (robot_theta (robotRef s)) * dt,
              robot_y := robot_y (robotRef s) +
                  cmdV (getReferencePoint config (timeRef s + dt)) (robotRef s) *
                    (thetaM (adaptiveParamsRef (fst (updatePhysics config s))) / realMass config) *
                  sin (robot_theta (robotRef s)) * dt,
              robot_theta := robot_theta (robotRef s) +
                  cmdW (getReferencePoint config (timeRef s + dt)) (robotRef s) *
                    (thetaM (adaptiveParamsRef (fst (updatePhysics config s))) / realMass config) *
                  dt\<rparr>"
proof -
  have m: "0 < realMass config" by (simp add: realMass_cases)
  have p: "robotRef (fst (updatePhysics config s)) =
           (robotRef s)
             \<lparr>robot_x := robot_x (robotRef s) +
                  cmdV (getReferencePoint config (timeRef s + dt)) (robotRef s) *
                    (thetaM (adaptiveParamsRef (fst (updatePhysics config s))) / realMass config) *
                  cos (robot_theta (robotRef s)) * dt,
              robot_y := robot_y (robotRef s) +
                  cmdV (getReferencePoint config (timeRef s + dt)) (robotRef s) *
                    (thetaM (adaptiveParamsRef (fst (updatePhysics config s))) / realMass config) *
                  sin (robot_theta (robotRef s)) * dt,
              robot_theta := robot_theta (robotRef s) +
                  cmdW (getReferencePoint config (timeRef s + dt)) (robotRef s) *
                    (thetaM (adaptiveParamsRef (fst (updatePhysics config s))) / realMass config) *
                  dt\<rparr>"
    using pose_updatePhysics [OF assms, of s] by (simp add: Let_def)
  from m thetaM_updatePhysics [OF assms, of s] p show ?thesis by blast
qed

text \<open>
  The first tick after a reset with the load and no adaptation: commanded velocity 1,
  estimate 1, true mass 3.5, heading 0.
\<close>

theorem achieved_velocities_witness:
  "isPlaying \<lparr>isAdaptive = False, hasLoad = True, trajectory = CIRCLE, isPlaying = True\<rparr> \<and>
   robot_x (robotRef (resetSimulation initialRefs)) = 1 / 5 \<and>
   robot_x (robotRef (fst (updatePhysics
     \<lparr>isAdaptive = False, hasLoad = True, trajectory = CIRCLE, isPlaying = True\<rparr>
     (resetSimulation initialRefs)))) = 1 / 5 + 1 * (1 / (7 / 2)) * 1 * (1 / 60)"
proof -
  let ?c = "\<lparr>isAdaptive = False, hasLoad = True, trajectory = CIRCLE, isPlaying = True\<rparr>"
  let ?s = "resetSimulation initialRefs"
  have v: "cmdV (getReferencePoint ?c (timeRef ?s + dt)) (robotRef ?s) = 1"
    by (rule reset_cmdV) simp
  have th: "adaptationLaw ?c
              (distError (getReferencePoint ?c (timeRef ?s + dt)) (robotRef ?s))
              (thetaM (adaptiveParamsRef ?s)) = 1"
    by (simp add: adaptationLaw_def)
  have r: "robot_x (robotRef ?s) = 1 / 5" "robot_theta (robotRef ?s) = 0"
    by (simp_all add: resetSimulation_def)
  have a: "thetaM (adaptiveParamsRef (fst (updatePhysics ?c ?s))) = 1"
    and b: "robotRef (fst (updatePhysics ?c ?s)) =
           (robotRef ?s)
             \<lparr>robot_x := robot_x (robotRef ?s) +
                  cmdV (getReferencePoint ?c (timeRef ?s + dt)) (robotRef ?s) *
                    (thetaM (adaptiveParamsRef (fst (updatePhysics ?c ?s))) / realMass ?c) *
                  cos (robot_theta (robotRef ?s)) * dt,
              robot_y := robot_y (robotRef ?s) +
                  cmdV (getReferencePoint ?c (timeRef ?s + dt)) (robotRef ?s) *
                    (thetaM (adaptiveParamsRef (fst (updatePhysics ?c ?s))) / realMass ?c) *
                  sin (robot_theta (robotRef ?s)) * dt,
              robot_theta := robot_theta (robotRef ?s) +
                  cmdW (getReferencePoint ?c (timeRef ?s + dt)) (robotRef ?s) *
                    (thetaM (adaptiveParamsRef (fst (updatePhysics ?c ?s))) / realMass ?c) *
                  dt\<rparr>"
    using achieved_velocities [of ?c ?s] unfolding th by simp_all
  have "robot_x (robotRef (fst (updatePhysics ?c ?s))) =
          1 / 5 + 1 * (1 / realMass ?c) * cos 0 * dt"
    unfolding b a v r by simp
  also have "\<dots> = 1 / 5 + 1 * (1 / (7 / 2)) * 1 * (1 / 60)"
    by (simp add: realMass_def dt_def FPS_def)
  finally show ?thesis using r(1) by simp
qed

subsection \<open>Angle normalisation\<close>

lemma normalizeDown_id: "a \<le> pi \<Longrightarrow> normalizeDown a = a"
  by (subst normalizeDown.simps) simp

lemma normalizeUp_id: "- pi \<le> a \<Longrightarrow> normalizeUp a = a"
  by (subst normalizeUp.simps) simp

lemma normalizeDown_le: "normalizeDown a \<le> pi"
  by (induction a rule: normalizeDown.induct) (subst normalizeDown.simps, simp)

lemma normalizeUp_ge: "- pi \<le> normalizeUp a"
  by (induction a rule: normalizeUp.induct) (subst normalizeUp.simps, simp)

lemma normalizeDown_gt: "- pi < a \<Longrightarrow> - pi < normalizeDown a"
proof (induction a rule: normalizeDown.induct)
  case (1 a)
  show ?case
  proof (cases "a > pi")
    case True
    then have "- pi < a - 2 * pi" by simp
    from "1.IH" [OF True this] show ?thesis
      by (subst normalizeDown.simps) (simp add: True)
  next
    case False
    then show ?thesis using "1.prems" by (subst normalizeDown.simps) simp
  qed
qed

lemma normalizeUp_le: "a \<le> pi \<Longrightarrow> normalizeUp a \<le> pi"
proof (induction a rule: normalizeUp.induct)
  case (1 a)
  show ?case
  proof (cases "a < - pi")
    case True
    then have "a + 2 * pi \<le> pi" by simp
    from "1.IH" [OF True this] show ?thesis
      by (subst normalizeUp.simps) (simp add: True)
  next
    case False
    then show ?thesis using "1.prems" by (subst normalizeUp.simps) simp
  qed
qed

text \<open>Each loop subtracts, respectively adds, \<open>2\<pi>\<close> a finite number of times.\<close>

lemma normalizeDown_shift: "\<exists>k::nat. normalizeDown a = a - 2 * pi * real k"
proof (induction a rule: normalizeDown.induct)
  case (1 a)
  show ?case
  proof (cases "a > pi")
    case True
    from "1.IH" [OF True] obtain k :: nat
      where k: "normalizeDown (a - 2 * pi) = a - 2 * pi - 2 * pi * real k"
      by blast
    have "normalizeDown a = normalizeDown (a - 2 * pi)"
      by (subst normalizeDown.simps) (simp add: True)
    also have "\<dots> = a - 2 * pi * real (Suc k)"
      unfolding k by (simp add: algebra_simps)
    finally show ?thesis by blast
  next
    case False
    then have "normalizeDown a = a - 2 * pi * real (0::nat)"
      by (simp add: normalizeDown_id)
    then show ?thesis by blast
  qed
qed

lemma normalizeUp_shift: "\<exists>k::nat. normalizeUp a = a + 2 * pi * real k"
proof (induction a rule: normalizeUp.induct)
  case (1 a)
  show ?case
  proof (cases "a < - pi")
    case True
    from "1.IH" [OF True] obtain k :: nat
      where k: "normalizeUp (a + 2 * pi) = a + 2 * pi + 2 * pi * real k"
      by blast
    have "normalizeUp a = normalizeUp (a + 2 * pi)"
      by (subst normalizeUp.simps) (simp add: True)
    also have "\<dots> = a + 2 * pi * real (Suc k)"
      unfolding k by (simp add: algebra_simps)
    finally show ?thesis by blast
  next
    case False
    then have "normalizeUp a = a + 2 * pi * real (0::nat)"
      by (simp add: normalizeUp_id)
    then show ?thesis by blast
  qed
qed

text \<open>
  Claim C5, as stated: for every raw heading difference the normalisation terminates
  with a result in the half-open interval \<open>(-\<pi>, \<pi>]\<close>. This fails at the raw difference
  \<open>-\<pi>\<close> (target heading 0, robot heading \<open>\<pi>\<close>): neither loop runs, the second one
  testing \<open>angleDiff < -\<pi>\<close> strictly, and the result is \<open>-\<pi>\<close>.
\<close>

theorem normalizeAngle_half_open_counterexample:
  "normalizeAngle (0 - pi) = - pi \<and>
   \<not> (- pi < normalizeAngle (0 - pi) \<and> normalizeAngle (0 - pi) \<le> pi)"
proof -
  have "normalizeDown (- pi) = - pi" by (rule normalizeDown_id) simp
  moreover have "normalizeUp (- pi) = - pi" by (rule normalizeUp_id) simp
  ultimately show ?thesis by (simp add: normalizeAngle_def)
qed

text \<open>
  Claim C5, amended: for every raw heading difference the normalisation terminates (both
  loops are total functions, by the termination proofs above) and its result lies in the
  closed interval \<open>[-\<pi>, \<pi>]\<close>, as the comment of line 85 says; it differs from the raw
  difference by an integer multiple of \<open>2\<pi>\<close>, and it is above \<open>-\<pi>\<close> whenever the raw
  difference is.
\<close>

theorem normalizeAngle_closed_range:
  "- pi \<le> normalizeAngle a \<and> normalizeAngle a \<le> pi \<and>
   (- pi < a \<longrightarrow> - pi < normalizeAngle a) \<and>
   (\<exists>k::int. normalizeAngle a = a + 2 * pi * of_int k)"
proof -
  have lo: "- pi \<le> normalizeAngle a"
    unfolding normalizeAngle_def by (rule normalizeUp_ge)
  have hi: "normalizeAngle a \<le> pi"
    unfolding normalizeAngle_def by (rule normalizeUp_le) (rule normalizeDown_le)
  have above: "- pi < normalizeAngle a" if "- pi < a"
  proof -
    from normalizeDown_gt [OF that] have g: "- pi < normalizeDown a" .
    then have "normalizeUp (normalizeDown a) = normalizeDown a"
      by (intro normalizeUp_id) simp
    with g show ?thesis by (simp add: normalizeAngle_def)
  qed
  obtain i :: nat where i: "normalizeDown a = a - 2 * pi * real i"
    using normalizeDown_shift by blast
  obtain j :: nat where j: "normalizeUp (normalizeDown a) = normalizeDown a + 2 * pi * real j"
    using normalizeUp_shift by blast
  have "normalizeAngle a = normalizeDown a + 2 * pi * real j"
    unfolding normalizeAngle_def by (rule j)
  also have "\<dots> = a - 2 * pi * real i + 2 * pi * real j"
    by (simp only: i)
  also have "\<dots> = a + 2 * pi * of_int (int j - int i)"
    by (simp add: algebra_simps)
  finally have "normalizeAngle a = a + 2 * pi * of_int (int j - int i)" .
  then have "\<exists>k::int. normalizeAngle a = a + 2 * pi * of_int k" by blast
  with lo hi above show ?thesis by blast
qed

theorem normalizeAngle_closed_range_witness:
  "- pi < 3 * pi / 2 \<and> - pi < normalizeAngle (3 * pi / 2) \<and> normalizeAngle (3 * pi / 2) \<le> pi"
  using normalizeAngle_closed_range [of "3 * pi / 2"] by simp

subsection \<open>Invariants of runs\<close>

text \<open>
  Claim C9: with \<^verbatim>\<open>isPlaying\<close> false a tick leaves the whole state unchanged (pose, clock,
  estimate, both trails) and emits no sample, for any number of such ticks.
\<close>

theorem paused_run_unchanged:
  "\<forall>config \<in> set configs. \<not> isPlaying config \<Longrightarrow> run (map Frame configs) s = (s, [])"
  by (induction configs) (simp_all add: updatePhysics_paused)

theorem paused_run_unchanged_witness:
  "\<not> isPlaying \<lparr>isAdaptive = True, hasLoad = True, trajectory = CIRCLE, isPlaying = False\<rparr> \<and>
   \<not> isPlaying \<lparr>isAdaptive = False, hasLoad = False, trajectory = CIRCLE, isPlaying = False\<rparr> \<and>
   run (map Frame [\<lparr>isAdaptive = True, hasLoad = True, trajectory = CIRCLE, isPlaying = False\<rparr>,
                   \<lparr>isAdaptive = False, hasLoad = False, trajectory = CIRCLE, isPlaying = False\<rparr>])
     (onReference 3) = (onReference 3, [])"
  using paused_run_unchanged
    [of "[\<lparr>isAdaptive = True, hasLoad = True, trajectory = CIRCLE, isPlaying = False\<rparr>,
          \<lparr>isAdaptive = False, hasLoad = False, trajectory = CIRCLE, isPlaying = False\<rparr>]"
        "onReference 3"]
  by simp

lemma step_trails_le:
  assumes "length (trailRef s) \<le> TRAIL_LENGTH" and "length (refTrailRef s) \<le> TRAIL_LENGTH"
  shows "length (trailRef (fst (step e s))) \<le> TRAIL_LENGTH \<and>
         length (refTrailRef (fst (step e s))) \<le> TRAIL_LENGTH"
proof (cases e)
  case (Frame config)
  from trails_updatePhysics [of config s] assms show ?thesis
    unfolding Frame step.simps by (auto simp add: length_pushTrail)
next
  case TrajectoryChanged
  then show ?thesis by (simp add: resetSimulation_def)
qed

lemma run_trails_le:
  "length (trailRef s) \<le> TRAIL_LENGTH \<Longrightarrow> length (refTrailRef s) \<le> TRAIL_LENGTH \<Longrightarrow>
   length (trailRef (fst (run es s))) \<le> TRAIL_LENGTH \<and>
   length (refTrailRef (fst (run es s))) \<le> TRAIL_LENGTH"
proof (induction es arbitrary: s)
  case Nil
  then show ?case by simp
next
  case (Cons e es)
  from step_trails_le [OF Cons.prems, of e]
  have "length (trailRef (fst (step e s))) \<le> TRAIL_LENGTH"
    and "length (refTrailRef (fst (step e s))) \<le> TRAIL_LENGTH" by simp_all
  then show ?case unfolding fst_run_Cons by (rule Cons.IH)
qed

text \<open>
  Claim C8: in every run that starts from empty trails, whatever its length and its
  events, each of the two trails holds at most 200 entries after every tick; a push onto
  a trail of 200 entries drops the oldest one (the head), a push onto a shorter trail
  drops nothing.
\<close>

theorem trail_capacity:
  assumes "trailRef s = []" and "refTrailRef s = []"
  shows "length (trailRef (fst (run es s))) \<le> 200 \<and>
         length (refTrailRef (fst (run es s))) \<le> 200 \<and>
         (length tr < 200 \<longrightarrow> pushTrail tr p = tr @ [p]) \<and>
         (length tr = 200 \<longrightarrow> pushTrail tr p = tl tr @ [p])"
proof -
  have "length (trailRef (fst (run es s))) \<le> TRAIL_LENGTH \<and>
        length (refTrailRef (fst (run es s))) \<le> TRAIL_LENGTH"
    by (rule run_trails_le) (simp_all add: assms)
  moreover have "length tr < 200 \<longrightarrow> pushTrail tr p = tr @ [p]"
    by (simp add: pushTrail_def TRAIL_LENGTH_def)
  moreover have "length tr = 200 \<longrightarrow> pushTrail tr p = tl tr @ [p]"
    by (cases tr) (simp_all add: pushTrail_def TRAIL_LENGTH_def)
  ultimately show ?thesis by (simp add: TRAIL_LENGTH_def)
qed

theorem trail_capacity_witness:
  "trailRef initialRefs = [] \<and> refTrailRef initialRefs = [] \<and>
   length (trailRef (fst (run
     [TrajectoryChanged,
      Frame \<lparr>isAdaptive = True, hasLoad = True, trajectory = CIRCLE, isPlaying = True\<rparr>,
      Frame \<lparr>isAdaptive = True, hasLoad = True, trajectory = CIRCLE, isPlaying = True\<rparr>]
     initialRefs))) \<le> 200 \<and>
   length (replicate 200 \<lparr>pt_x = 0, pt_y = 0\<rparr>) = 200 \<and>
   pushTrail (replicate 200 \<lparr>pt_x = 0, pt_y = 0\<rparr>) \<lparr>pt_x = 1, pt_y = 1\<rparr> =
     tl (replicate 200 \<lparr>pt_x = 0, pt_y = 0\<rparr>) @ [\<lparr>pt_x = 1, pt_y = 1\<rparr>]"
  using trail_capacity
    [of initialRefs
        "[TrajectoryChanged,
          Frame \<lparr>isAdaptive = True, hasLoad = True, trajectory = CIRCLE, isPlaying = True\<rparr>,
          Frame \<lparr>isAdaptive = True, hasLoad = True, trajectory = CIRCLE, isPlaying = True\<rparr>]"
        "replicate 200 \<lparr>pt_x = 0, pt_y = 0\<rparr>" "\<lparr>pt_x = 1, pt_y = 1\<rparr>"]
  by (simp add: initialRefs_def)

lemma step_trails_same_length:
  assumes "length (trailRef s) = length (refTrailRef s)"
  shows "length (trailRef (fst (step e s))) = length (refTrailRef (fst (step e s)))"
proof (cases e)
  case (Frame config)
  from trails_updatePhysics [of config s] assms show ?thesis
    unfolding Frame step.simps by (auto simp add: length_pushTrail)
next
  case TrajectoryChanged
  then show ?thesis by (simp add: resetSimulation_def)
qed

text \<open>
  Claim C10: after every tick the reference trail and the actual trail have the same
  length. Both start empty, a reset empties both, and a tick either leaves both alone
  or pushes onto both under the same capacity rule; so equal lengths at the start of a
  run stay equal through every event.
\<close>

theorem trails_lockstep:
  "length (trailRef s) = length (refTrailRef s) \<Longrightarrow>
   length (trailRef (fst (run es s))) = length (refTrailRef (fst (run es s)))"
proof (induction es arbitrary: s)
  case Nil
  then show ?case by simp
next
  case (Cons e es)
  show ?case unfolding fst_run_Cons
    by (rule Cons.IH) (rule step_trails_same_length [OF Cons.prems])
qed

theorem trails_lockstep_witness:
  "length (trailRef initialRefs) = length (refTrailRef initialRefs) \<and>
   length (trailRef (fst (run
     [TrajectoryChanged,
      Frame \<lparr>isAdaptive = False, hasLoad = False, trajectory = CIRCLE, isPlaying = True\<rparr>,
      Frame \<lparr>isAdaptive = True, hasLoad = True, trajectory = CIRCLE, isPlaying = True\<rparr>]
     initialRefs))) =
   length (refTrailRef (fst (run
     [TrajectoryChanged,
      Frame \<lparr>isAdaptive = False, hasLoad = False, trajectory = CIRCLE, isPlaying = True\<rparr>,
      Frame \<lparr>isAdaptive = True, hasLoad = True, trajectory = CIRCLE, isPlaying = True\<rparr>]
     initialRefs)))"
proof -
  have h: "length (trailRef initialRefs) = length (refTrailRef initialRefs)"
    by (simp add: initialRefs_def)
  from trails_lockstep [OF h] h show ?thesis by blast
qed

lemma adaptationLaw_bounded:
  assumes "0 < est" and "est \<le> M" and "1 \<le> M" and "realMass config \<le> M"
  shows "0 < adaptationLaw config err est \<and> adaptationLaw config err est \<le> M"
proof (cases "isAdaptive config")
  case False
  then show ?thesis using assms by (simp add: adaptationLaw_def)
next
  case True
  have m: "1 \<le> realMass config" by (simp add: realMass_cases)
  show ?thesis
  proof (cases "err > 0.05")
    case True
    have e: "adaptationLaw config err est = est * (1 - 51 / 6000) + realMass config / 120"
      using \<open>isAdaptive config\<close> True
      by (simp add: adaptationLaw_def dt_def FPS_def field_simps)
    have "0 < est * (1 - 51 / 6000)" using assms(1) by simp
    then have lo: "0 < est * (1 - 51 / 6000) + realMass config / 120" using m by simp
    have "est * (1 - 51 / 6000) + realMass config / 120 \<le> M * (1 - 51 / 6000) + M / 120"
      using assms(2,4) by simp
    also have "\<dots> \<le> M" using assms(3) by simp
    finally show ?thesis using lo e by simp
  next
    case False
    have e: "adaptationLaw config err est = est * (1 - 1 / 6000)"
      using \<open>isAdaptive config\<close> False
      by (simp add: adaptationLaw_def dt_def FPS_def field_simps)
    have "0 < est * (1 - 1 / 6000)" using assms(1) by simp
    moreover have "est * (1 - 1 / 6000) \<le> est" using assms(1) by simp
    ultimately show ?thesis using e assms(2) by simp
  qed
qed

lemma step_thetaM_bounded:
  assumes "0 < thetaM (adaptiveParamsRef s)" and "thetaM (adaptiveParamsRef s) \<le> M"
    and "1 \<le> M" and "\<forall>config. e = Frame config \<longrightarrow> realMass config \<le> M"
  shows "0 < thetaM (adaptiveParamsRef (fst (step e s))) \<and>
         thetaM (adaptiveParamsRef (fst (step e s))) \<le> M"
proof (cases e)
  case (Frame config)
  show ?thesis
  proof (cases "isPlaying config")
    case True
    have "realMass config \<le> M" using assms(4) Frame by simp
    from adaptationLaw_bounded [OF assms(1) assms(2) assms(3) this]
    show ?thesis unfolding Frame step.simps thetaM_updatePhysics [OF True] .
  next
    case False
    then show ?thesis using assms(1,2) Frame by (simp add: updatePhysics_paused)
  qed
next
  case TrajectoryChanged
  then show ?thesis using assms(3) by (simp add: resetSimulation_def)
qed

lemma run_thetaM_bounded:
  "0 < thetaM (adaptiveParamsRef s) \<Longrightarrow> thetaM (adaptiveParamsRef s) \<le> M \<Longrightarrow> 1 \<le> M \<Longrightarrow>
   \<forall>config. Frame config \<in> set es \<longrightarrow> realMass config \<le> M \<Longrightarrow>
   0 < thetaM (adaptiveParamsRef (fst (run es s))) \<and>
   thetaM (adaptiveParamsRef (fst (run es s))) \<le> M"
proof (induction es arbitrary: s)
  case Nil
  then show ?case by simp
next
  case (Cons e es)
  have h: "\<forall>config. e = Frame config \<longrightarrow> realMass config \<le> M"
    using Cons.prems(4) by simp
  from step_thetaM_bounded [OF Cons.prems(1) Cons.prems(2) Cons.prems(3) h]
  have lo: "0 < thetaM (adaptiveParamsRef (fst (step e s)))"
    and hi: "thetaM (adaptiveParamsRef (fst (step e s))) \<le> M" by simp_all
  have r: "\<forall>config. Frame config \<in> set es \<longrightarrow> realMass config \<le> M"
    using Cons.prems(4) by simp
  show ?case unfolding fst_run_Cons by (rule Cons.IH [OF lo hi Cons.prems(3) r])
qed

text \<open>
  Claim C3: in every run that starts from \<^verbatim>\<open>thetaM = 1.0\<close>, whatever its length and its
  sequence of configurations (resets included), the estimate stays within a fixed bound:
  it is positive and never exceeds 3.5, the true mass with the load; in a run none of
  whose frames has the load it never exceeds 1.
\<close>

theorem estimate_bounded:
  assumes "thetaM (adaptiveParamsRef s) = 1"
  shows "0 < thetaM (adaptiveParamsRef (fst (run es s))) \<and>
         thetaM (adaptiveParamsRef (fst (run es s))) \<le> 3.5 \<and>
         ((\<forall>config. Frame config \<in> set es \<longrightarrow> \<not> hasLoad config) \<longrightarrow>
            thetaM (adaptiveParamsRef (fst (run es s))) \<le> 1)"
proof -
  have a: "0 < thetaM (adaptiveParamsRef s)" using assms by simp
  have "\<forall>config. Frame config \<in> set es \<longrightarrow> realMass config \<le> 3.5"
    by (simp add: realMass_cases)
  from run_thetaM_bounded [OF a _ _ this]
  have g: "0 < thetaM (adaptiveParamsRef (fst (run es s))) \<and>
           thetaM (adaptiveParamsRef (fst (run es s))) \<le> 3.5"
    using assms by simp
  have "thetaM (adaptiveParamsRef (fst (run es s))) \<le> 1"
    if n: "\<forall>config. Frame config \<in> set es \<longrightarrow> \<not> hasLoad config"
  proof -
    have "\<forall>config. Frame config \<in> set es \<longrightarrow> realMass config \<le> 1"
      using n by (simp add: realMass_cases)
    from run_thetaM_bounded [OF a _ _ this] show ?thesis using assms by simp
  qed
  with g show ?thesis by blast
qed

theorem estimate_bounded_witness:
  "thetaM (adaptiveParamsRef initialRefs) = 1 \<and>
   thetaM (adaptiveParamsRef (fst (run
     [TrajectoryChanged,
      Frame \<lparr>isAdaptive = True, hasLoad = True, trajectory = CIRCLE, isPlaying = True\<rparr>,
      Frame \<lparr>isAdaptive = True, hasLoad = False, trajectory = CIRCLE, isPlaying = True\<rparr>]
     initialRefs))) \<le> 3.5 \<and>
   \<not> hasLoad \<lparr>isAdaptive = True, hasLoad = False, trajectory = FIGURE_EIGHT, isPlaying = True\<rparr> \<and>
   thetaM (adaptiveParamsRef (fst (run
     [TrajectoryChanged,
      Frame \<lparr>isAdaptive = True, hasLoad = False, trajectory = FIGURE_EIGHT, isPlaying = True\<rparr>]
     initialRefs))) \<le> 1"
proof -
  have h: "thetaM (adaptiveParamsRef initialRefs) = 1"
    by (simp add: initialRefs_def)
  have n: "\<forall>config. Frame config \<in> set
      [TrajectoryChanged,
       Frame \<lparr>isAdaptive = True, hasLoad = False, trajectory = FIGURE_EIGHT, isPlaying = True\<rparr>]
      \<longrightarrow> \<not> hasLoad config"
    by auto
  have m: "\<not> hasLoad \<lparr>isAdaptive = True, hasLoad = False, trajectory = FIGURE_EIGHT, isPlaying = True\<rparr>"
    by simp
  from estimate_bounded [OF h,
      of "[TrajectoryChanged,
           Frame \<lparr>isAdaptive = True, hasLoad = True, trajectory = CIRCLE, isPlaying = True\<rparr>,
           Frame \<lparr>isAdaptive = True, hasLoad = False, trajectory = CIRCLE, isPlaying = True\<rparr>]"]
    estimate_bounded [OF h,
      of "[TrajectoryChanged,
           Frame \<lparr>isAdaptive = True, hasLoad = False, trajectory = FIGURE_EIGHT, isPlaying = True\<rparr>]"]
    h n m
  show ?thesis by blast
qed

end
